theory Spec2Isabelle
  imports Main "HOL-Library.Word"
begin

section \<open>JavaScript values\<close>

text \<open>
  A request body, the configuration file and the success response hold JSON values.
  \<open>JUndefined\<close> is the value of a property that is not there. A number is given
  by the text that \<open>String(n)\<close> prints for it (\<open>0\<close>, \<open>-12\<close>, \<open>0.5\<close>,
  \<open>1e+21\<close>): the code tests a number for being zero, compares it and prints it, and
  the text decides all three. An object is the list of its own properties (keys
  distinct, as \<open>JSON.parse\<close> leaves them).
\<close>

datatype jsval =
    JUndefined
  | JNull
  | JBool bool
  | JNum string
  | JStr string
  | JArr "jsval list"
  | JObj "(string \<times> jsval) list"

text \<open>The test of \<open>if (v)\<close>, \<open>!v\<close>, \<open>v && ...\<close> and \<open>v || ...\<close>.\<close>

fun truthy :: "jsval \<Rightarrow> bool" where
  "truthy JUndefined = False"
| "truthy JNull = False"
| "truthy (JBool b) = b"
| "truthy (JNum n) = (n \<noteq> ''0'' \<and> n \<noteq> ''NaN'')"
| "truthy (JStr s) = (s \<noteq> [])"
| "truthy (JArr xs) = True"
| "truthy (JObj kvs) = True"

text \<open>\<open>a || b\<close>\<close>

definition js_or :: "jsval \<Rightarrow> jsval \<Rightarrow> jsval" where
  "js_or a b = (if truthy a then a else b)"

text \<open>
  \<open>a === b\<close> for two values that were parsed apart (one from the request, one from
  the configuration file, or a literal): primitives are compared by value, an object or
  an array is equal only to itself.
\<close>

fun strict_eq :: "jsval \<Rightarrow> jsval \<Rightarrow> bool" where
  "strict_eq (JArr xs) b = False"
| "strict_eq (JObj kvs) b = False"
| "strict_eq (JNum n) b = (n \<noteq> ''NaN'' \<and> JNum n = b)"
| "strict_eq a b = (a = b)"

text \<open>\<open>[s1, s2, ...].includes(v)\<close> for an array of string literals.\<close>

fun array_includes :: "string list \<Rightarrow> jsval \<Rightarrow> bool" where
  "array_includes xs (JStr s) = (s \<in> set xs)"
| "array_includes xs v = False"

text \<open>\<open>typeof v === 'boolean'\<close>\<close>

fun is_boolean :: "jsval \<Rightarrow> bool" where
  "is_boolean (JBool b) = True"
| "is_boolean v = False"

text \<open>
  \<open>v.key\<close> on a value that is neither \<open>null\<close> nor \<open>undefined\<close>, for a key that
  no prototype defines (\<open>provider\<close>, \<open>apiKey\<close>, \<open>error\<close>, \<open>message\<close>).
\<close>

fun get_prop :: "jsval \<Rightarrow> string \<Rightarrow> jsval" where
  "get_prop (JObj kvs) k = (case map_of kvs k of Some v \<Rightarrow> v | None \<Rightarrow> JUndefined)"
| "get_prop v k = JUndefined"

text \<open>The decimal digits of an integer, as \<open>`${status}`\<close> prints an HTTP status.\<close>

definition digit_char :: "nat \<Rightarrow> char" where
  "digit_char d = char_of (48 + d)"

fun nat_to_string :: "nat \<Rightarrow> string" where
  "nat_to_string n =
     (if n < 10 then [digit_char n] else nat_to_string (n div 10) @ [digit_char (n mod 10)])"

declare nat_to_string.simps [simp del]

definition int_to_string :: "int \<Rightarrow> string" where
  "int_to_string i =
     (if i < 0 then CHR ''-'' # nat_to_string (nat (- i)) else nat_to_string (nat i))"

text \<open>String conversion, as a template literal \<open>`${v}`\<close> does it.\<close>

fun intercalate :: "string \<Rightarrow> string list \<Rightarrow> string" where
  "intercalate sep [] = []"
| "intercalate sep [x] = x"
| "intercalate sep (x # y # ys) = x @ sep @ intercalate sep (y # ys)"

fun to_string :: "jsval \<Rightarrow> string" where
  "to_string JUndefined = ''undefined''"
| "to_string JNull = ''null''"
| "to_string (JBool b) = (if b then ''true'' else ''false'')"
| "to_string (JNum n) = n"
| "to_string (JStr s) = s"
| "to_string (JArr xs) =
     intercalate '','' (map (\<lambda>x. if x = JUndefined \<or> x = JNull then [] else to_string x) xs)"
| "to_string (JObj kvs) = ''[object Object]''"


section \<open>Strings\<close>

text \<open>
  A string is a list of code units below 256. \<open>toLowerCase\<close> maps \<open>A-Z\<close> and the
  upper-case letters of Latin-1 (U+00C0 to U+00DE but U+00D7) to their lower-case
  forms, 32 places on, and leaves every other code unit alone.
\<close>

definition is_upper :: "char \<Rightarrow> bool" where
  "is_upper c =
     (let n = (of_char c :: nat)
      in (65 \<le> n \<and> n \<le> 90) \<or> (192 \<le> n \<and> n \<le> 214) \<or> (216 \<le> n \<and> n \<le> 222))"

definition lower_char :: "char \<Rightarrow> char" where
  "lower_char c = (if is_upper c then char_of ((of_char c :: nat) + 32) else c)"

definition toLowerCase :: "string \<Rightarrow> string" where
  "toLowerCase s = map lower_char s"

text \<open>The character class \<open>[a-z0-9]\<close>.\<close>

definition is_lower_alnum :: "char \<Rightarrow> bool" where
  "is_lower_alnum c =
     (let n = (of_char c :: nat) in (97 \<le> n \<and> n \<le> 122) \<or> (48 \<le> n \<and> n \<le> 57))"

text \<open>
  \<open>.replace(/[^a-z0-9]+/g, '_')\<close>: the scan of a global replace. At a character of
  the class \<open>[^a-z0-9]\<close> the greedy \<open>+\<close> takes all that follow of that class, the
  match becomes one \<open>_\<close> and the scan goes on after it; any other character is kept.
\<close>

function replace_non_alnum :: "string \<Rightarrow> string" where
  "replace_non_alnum [] = []"
| "replace_non_alnum (c # cs) =
     (if is_lower_alnum c then c # replace_non_alnum cs
      else CHR ''_'' # replace_non_alnum (dropWhile (\<lambda>d. \<not> is_lower_alnum d) cs))"
  by pat_completeness auto
termination
  by (relation "measure length") (auto simp: length_dropWhile_le less_Suc_eq_le)

text \<open>
  \<open>.replace(/^_|_$/g, '')\<close>: the scan of a global replace with the empty string. A
  \<open>_\<close> is a match where it stands first (\<open>^_\<close>) or last (\<open>_$\<close>) in the string; the
  flag says whether the scan is at the start.
\<close>

fun strip_scan :: "bool \<Rightarrow> string \<Rightarrow> string" where
  "strip_scan at_start [] = []"
| "strip_scan at_start (c # cs) =
     (if c = CHR ''_'' \<and> (at_start \<or> cs = []) then strip_scan False cs
      else c # strip_scan False cs)"

text \<open>The slug of \<open>generateFilename\<close>: the four chained calls on the query.\<close>

definition slug :: "string \<Rightarrow> string" where
  "slug q = take 50 (strip_scan True (replace_non_alnum (toLowerCase q)))"

text \<open>
  \<open>generateFilename(query, format)\<close>, the same in both service files. \<open>uuid\<close> is
  what \<open>uuidv4()\<close> returns at this call.
\<close>

definition generateFilename :: "string \<Rightarrow> jsval \<Rightarrow> string \<Rightarrow> string" where
  "generateFilename q fmt uuid =
     (let uniqueId = take 8 uuid
      in slug q @ ''_'' @ to_string (js_or fmt (JStr ''image'')) @ ''_'' @ uniqueId @ ''.png'')"

text \<open>A version 4 identifier as \<open>uuidv4()\<close> prints it: 36 characters, lower-case hex.\<close>

definition is_hex :: "char \<Rightarrow> bool" where
  "is_hex c =
     (let n = (of_char c :: nat) in (48 \<le> n \<and> n \<le> 57) \<or> (97 \<le> n \<and> n \<le> 102))"

definition is_uuid_v4 :: "string \<Rightarrow> bool" where
  "is_uuid_v4 u =
     (length u = 36 \<and>
      list_all is_hex (take 8 u) \<and> u ! 8 = CHR ''-'' \<and>
      list_all is_hex (take 4 (drop 9 u)) \<and> u ! 13 = CHR ''-'' \<and>
      u ! 14 = CHR ''4'' \<and> list_all is_hex (take 3 (drop 15 u)) \<and> u ! 18 = CHR ''-'' \<and>
      u ! 19 \<in> set ''89ab'' \<and> list_all is_hex (take 3 (drop 20 u)) \<and> u ! 23 = CHR ''-'' \<and>
      list_all is_hex (drop 24 u))"


subsection \<open>The filename algorithm in the words of the specification\<close>

text \<open>
  Step 2, "replace every maximal run of characters outside \<open>[a-z0-9]\<close> with a single
  \<open>_\<close>": the string is cut into its maximal runs of characters of one kind, and each
  run outside the class is replaced.
\<close>

function runs :: "string \<Rightarrow> (bool \<times> string) list" where
  "runs [] = []"
| "runs (c # cs) =
     (let k = is_lower_alnum c
      in (k, c # takeWhile (\<lambda>d. is_lower_alnum d = k) cs)
           # runs (dropWhile (\<lambda>d. is_lower_alnum d = k) cs))"
  by pat_completeness auto
termination
  by (relation "measure length") (auto simp: length_dropWhile_le less_Suc_eq_le)

definition spec_collapse_runs :: "string \<Rightarrow> string" where
  "spec_collapse_runs s = concat (map (\<lambda>(k, r). if k then r else ''_'') (runs s))"

text \<open>Step 3, "strip a single leading and/or trailing \<open>_\<close>".\<close>

definition strip_leading :: "string \<Rightarrow> string" where
  "strip_leading s = (case s of [] \<Rightarrow> [] | c # cs \<Rightarrow> if c = CHR ''_'' then cs else s)"

definition strip_trailing :: "string \<Rightarrow> string" where
  "strip_trailing s = (if s \<noteq> [] \<and> last s = CHR ''_'' then butlast s else s)"

definition spec_strip :: "string \<Rightarrow> string" where
  "spec_strip s = strip_trailing (strip_leading s)"

text \<open>
  Steps 1 to 5 in their order. The format is absent when it is not provided in the
  sense of the code: a falsy value (\<open>undefined\<close>, \<open>null\<close>, the empty string).
\<close>

definition spec_slug :: "string \<Rightarrow> string" where
  "spec_slug q = take 50 (spec_strip (spec_collapse_runs (toLowerCase q)))"

definition spec_filename :: "string \<Rightarrow> jsval \<Rightarrow> string \<Rightarrow> string" where
  "spec_filename q fmt uuid =
     spec_slug q @ ''_'' @ (if truthy fmt then to_string fmt else ''image'') @ ''_''
       @ take 8 uuid @ ''.png''"

text \<open>
  The strings on which a second slug is to change nothing: only \<open>[a-z0-9]\<close> and
  \<open>_\<close>, no two \<open>_\<close> in a row, none first or last, at most 50 characters.
\<close>

fun single_underscores :: "string \<Rightarrow> bool" where
  "single_underscores (a # b # cs) =
     (\<not> (a = CHR ''_'' \<and> b = CHR ''_'') \<and> single_underscores (b # cs))"
| "single_underscores cs = True"

definition slug_normal :: "string \<Rightarrow> bool" where
  "slug_normal x =
     (list_all (\<lambda>c. is_lower_alnum c \<or> c = CHR ''_'') x \<and> single_underscores x \<and>
      (x = [] \<or> (hd x \<noteq> CHR ''_'' \<and> last x \<noteq> CHR ''_'')) \<and> length x \<le> 50)"


section \<open>The configuration service\<close>

text \<open>
  What \<open>loadConfig\<close> finds at \<open>.assetgen/config.json\<close>: no file, a file that
  cannot be read, a file that \<open>JSON.parse\<close> rejects, or a file with the value
  parsed from it.
\<close>

datatype config_file = NoFile | Unreadable | Malformed | Parsed jsval

definition default_config :: jsval where
  "default_config =
     JObj [(''provider'', JStr ''openai''), (''apiKey'', JNull),
           (''storagePath'', JStr ''./generated-assets'')]"

text \<open>\<open>loadConfig\<close>: the value left in \<open>this.config\<close>.\<close>

fun loadConfig :: "config_file \<Rightarrow> jsval" where
  "loadConfig (Parsed v) = v"
| "loadConfig NoFile = default_config"
| "loadConfig Unreadable = default_config"
| "loadConfig Malformed = default_config"

definition getDefaultApiKey :: "jsval \<Rightarrow> jsval \<Rightarrow> jsval" where
  "getDefaultApiKey cfg p =
     (if \<not> truthy cfg then JNull
      else if strict_eq p (get_prop cfg ''provider'') then get_prop cfg ''apiKey''
      else JNull)"

text \<open>\<open>v?.key\<close>\<close>

definition opt_get_prop :: "jsval \<Rightarrow> string \<Rightarrow> jsval" where
  "opt_get_prop v k = (if v = JUndefined \<or> v = JNull then JUndefined else get_prop v k)"

definition getDefaultProvider :: "jsval \<Rightarrow> jsval" where
  "getDefaultProvider cfg = js_or (opt_get_prop cfg ''provider'') (JStr ''openai'')"


section \<open>The settings module\<close>

text \<open>
  \<open>process.env.ASSET_STORAGE_PATH || './generated-assets'\<close>; the argument is the
  environment variable, \<open>None\<close> when it is not set.
\<close>

definition assetStorage_path :: "string option \<Rightarrow> string" where
  "assetStorage_path v =
     (case v of None \<Rightarrow> ''./generated-assets''
      | Some s \<Rightarrow> if s = [] then ''./generated-assets'' else s)"

text \<open>
  \<open>parseInt(process.env.X) || d\<close>; the argument is what \<open>parseInt\<close> returns,
  \<open>None\<close> for \<open>NaN\<close>.
\<close>

definition parsed_or :: "int option \<Rightarrow> int \<Rightarrow> int" where
  "parsed_or v d = (case v of None \<Rightarrow> d | Some n \<Rightarrow> if n = 0 then d else n)"

definition rateLimit_windowMs :: "int option \<Rightarrow> int" where
  "rateLimit_windowMs v = parsed_or v 60000"

definition rateLimit_max :: "int option \<Rightarrow> int" where
  "rateLimit_max v = parsed_or v 10"


section \<open>Request validation\<close>

text \<open>
  The fields that the middleware and the controller read from \<open>req.body\<close>; a field
  that the body does not have is \<open>JUndefined\<close>.
\<close>

record request_body =
  query :: jsval
  type :: jsval
  format :: jsval
  style :: jsval
  api_key :: jsval
  provider :: jsval
  transparent :: jsval

text \<open>The answers of the middleware, all with status 400, one for each \<open>return\<close>.\<close>

datatype validation_failure =
    MissingQuery
  | MissingType
  | UnsupportedType
  | UnsupportedFormat
  | MissingApiKey
  | UnsupportedProvider
  | InvalidTransparent

fun failure_message :: "validation_failure \<Rightarrow> string" where
  "failure_message MissingQuery = ''Missing required field: query''"
| "failure_message MissingType = ''Missing required field: type''"
| "failure_message UnsupportedType =
     ''Unsupported asset type. Currently only \"image\" is supported.''"
| "failure_message UnsupportedFormat =
     ''Unsupported format. Supported formats are: sprite, icon, component''"
| "failure_message MissingApiKey =
     ''Missing required field: api_key. You must provide your own API key or configure one using the CLI.''"
| "failure_message UnsupportedProvider =
     ''Unsupported provider. Supported providers are: openai, stability, replicate''"
| "failure_message InvalidTransparent =
     ''Invalid value for transparent. Must be a boolean (true or false).''"

text \<open>
  \<open>validateGenerateRequest\<close>: \<open>Some f\<close> is the answer sent, \<open>None\<close> the call of
  \<open>next()\<close>. \<open>cfg\<close> is the value held by the configuration service.
\<close>

definition validateGenerateRequest :: "jsval \<Rightarrow> request_body \<Rightarrow> validation_failure option" where
  "validateGenerateRequest cfg b =
     (let defaultProvider = getDefaultProvider cfg
      in if \<not> truthy (query b) then Some MissingQuery
         else if \<not> truthy (type b) then Some MissingType
         else if \<not> strict_eq (type b) (JStr ''image'') then Some UnsupportedType
         else if truthy (format b) \<and>
                 \<not> array_includes [''sprite'', ''icon'', ''component''] (format b)
           then Some UnsupportedFormat
         else
           (let effectiveProvider = js_or (provider b) defaultProvider;
                defaultApiKey = getDefaultApiKey cfg effectiveProvider
            in if \<not> truthy (api_key b) \<and> \<not> truthy defaultApiKey then Some MissingApiKey
               else if truthy (provider b) \<and>
                       \<not> array_includes [''openai'', ''stability'', ''replicate''] (provider b)
                 then Some UnsupportedProvider
               else if transparent b \<noteq> JUndefined \<and> \<not> is_boolean (transparent b)
                 then Some InvalidTransparent
               else None))"

text \<open>
  The rules of the specification in their order, each a pair of "is violated" and the
  failure it gives; the rule on the type gives two failures. A field is present when it
  is truthy, which is what the middleware tests. The first violated rule decides.
\<close>

definition validation_rules :: "jsval \<Rightarrow> request_body \<Rightarrow> (bool \<times> validation_failure) list" where
  "validation_rules cfg b =
     [(\<not> truthy (query b), MissingQuery),
      (\<not> truthy (type b), MissingType),
      (\<not> strict_eq (type b) (JStr ''image''), UnsupportedType),
      (truthy (format b) \<and> \<not> array_includes [''sprite'', ''icon'', ''component''] (format b),
       UnsupportedFormat),
      (\<not> truthy (api_key b) \<and>
       \<not> truthy (getDefaultApiKey cfg (js_or (provider b) (getDefaultProvider cfg))),
       MissingApiKey),
      (truthy (provider b) \<and>
       \<not> array_includes [''openai'', ''stability'', ''replicate''] (provider b),
       UnsupportedProvider),
      (transparent b \<noteq> JUndefined \<and> \<not> is_boolean (transparent b), InvalidTransparent)]"

definition first_failure :: "(bool \<times> validation_failure) list \<Rightarrow> validation_failure option" where
  "first_failure rs = map_option snd (find fst rs)"


section \<open>The asset service\<close>

subsection \<open>Results, errors and the world outside\<close>

type_synonym byte = "8 word"

text \<open>The object that \<open>generateImage\<close> returns.\<close>

record meta =
  meta_format :: string
  meta_style :: jsval
  meta_dimensions :: string
  meta_transparent :: jsval
  meta_query :: jsval

record generated =
  status :: string
  file_path :: string
  file_name :: string
  meta :: meta

text \<open>
  The errors thrown, one constructor for each \<open>new Error(...)\<close> of the services and
  one for the \<open>TypeError\<close> of calling \<open>toLowerCase\<close> on a query that is no string.
\<close>

datatype error =
    NoApiKey string
  | UnsupportedAssetType string
  | NoImageData
  | ApiKeyInvalid
  | RateLimitExceeded
  | BadRequest string
  | OpenAIError int string
  | CallFailed string
  | DownloadFailed string
  | SaveFailed string
  | PlaceholderFailed string
  | TypeError string

fun error_message :: "error \<Rightarrow> string" where
  "error_message (NoApiKey p) =
     ''No API key provided for '' @ p @
     ''. Please provide an API key or configure one using the CLI.''"
| "error_message (UnsupportedAssetType t) = ''Unsupported asset type: '' @ t"
| "error_message NoImageData = ''No image data returned from OpenAI API''"
| "error_message ApiKeyInvalid = ''API key is invalid or expired.''"
| "error_message RateLimitExceeded = ''Rate limit exceeded. Please try again later.''"
| "error_message (BadRequest d) = ''Bad request: '' @ d"
| "error_message (OpenAIError st d) =
     ''OpenAI API error ('' @ int_to_string st @ ''): '' @ d"
| "error_message (CallFailed m) = ''Failed to call OpenAI API: '' @ m"
| "error_message (DownloadFailed m) = ''Failed to download image: '' @ m"
| "error_message (SaveFailed m) = ''Failed to save image: '' @ m"
| "error_message (PlaceholderFailed m) = ''Failed to create placeholder image: '' @ m"
| "error_message (TypeError m) = m"

text \<open>
  What \<open>axios.post\<close> on the images endpoint comes to: an answer whose body has the
  list of image URLs under \<open>data\<close> (\<open>None\<close> when the body has none), an answer with
  an error status and its body \<open>error.response.data\<close>, which may be any value, or no
  answer at all, with the message of the failure.
\<close>

datatype post_outcome =
    PostOk "string list option"
  | PostHttpError int jsval
  | PostFailed string

datatype get_outcome = GetOk "byte list" | GetFailed string

text \<open>
  The surroundings of one request: the identifier that \<open>uuidv4()\<close> returns, the
  answers of the network, whether creating the directory and writing the file throws
  (\<open>Some\<close> message), and \<open>path.join\<close>.
\<close>

record env =
  uuid :: string
  post_images :: "string \<Rightarrow> jsval \<Rightarrow> post_outcome"
  get_url :: "string \<Rightarrow> get_outcome"
  disk_fault :: "string \<Rightarrow> string option"
  path_join :: "string \<Rightarrow> string \<Rightarrow> string"

text \<open>An outbound call: the prompt and the key posted, or the URL fetched.\<close>

datatype net_call = Post string jsval | Get string

text \<open>The state the service acts on: the files on disk and the calls sent so far.\<close>

record world =
  files :: "string \<rightharpoonup> byte list"
  net_log :: "net_call list"

subsection \<open>Base64\<close>

text \<open>
  \<open>Buffer.from(s, 'base64')\<close> for a string over the standard alphabet with its
  padding at the end, as the two literals of the source are.
\<close>

definition b64_value :: "char \<Rightarrow> nat" where
  "b64_value c =
     (let n = (of_char c :: nat)
      in if 65 \<le> n \<and> n \<le> 90 then n - 65
         else if 97 \<le> n \<and> n \<le> 122 then n - 71
         else if 48 \<le> n \<and> n \<le> 57 then n + 4
         else if n = 43 then 62
         else 63)"

fun b64_groups :: "nat list \<Rightarrow> nat list" where
  "b64_groups (a # b # c # d # rest) =
     (a * 4 + b div 16) # ((b mod 16) * 16 + c div 4) # ((c mod 4) * 64 + d) # b64_groups rest"
| "b64_groups [a, b, c] = [a * 4 + b div 16, (b mod 16) * 16 + c div 4]"
| "b64_groups [a, b] = [a * 4 + b div 16]"
| "b64_groups rest = []"

definition Buffer_from_base64 :: "string \<Rightarrow> byte list" where
  "Buffer_from_base64 s =
     map of_nat (b64_groups (map b64_value (takeWhile (\<lambda>c. c \<noteq> CHR ''='') s)))"

subsection \<open>The service that calls the provider\<close>

text \<open>A parameter written \<open>transparent = true\<close>: the default stands in for \<open>undefined\<close>.\<close>

definition default_true :: "jsval \<Rightarrow> jsval" where
  "default_true v = (if v = JUndefined then JBool True else v)"

definition getPlaceholderImageData :: "jsval \<Rightarrow> byte list" where
  "getPlaceholderImageData transparent0 =
     (if truthy (default_true transparent0)
      then Buffer_from_base64
        ''iVBORw0KGgoAAAANSUhEUgAAAAEAAAABCAQAAAC1HAwCAAAAC0lEQVR42mNkYAAAAAYAAjCB0C8AAAAASUVORK5CYII=''
      else Buffer_from_base64
        ''iVBORw0KGgoAAAANSUhEUgAAAAEAAAABCAIAAACQd1PeAAAADElEQVQI12P4//8/AAX+Av7czFnnAAAAAElFTkSuQmCC'')"

definition saveImageToDisk ::
  "env \<Rightarrow> world \<Rightarrow> string \<Rightarrow> byte list \<Rightarrow> world \<times> (error + unit)" where
  "saveImageToDisk ev w filePath imageData =
     (case disk_fault ev filePath of
        Some m \<Rightarrow> (w, Inl (SaveFailed m))
      | None \<Rightarrow> (w\<lparr>files := (files w)(filePath \<mapsto> imageData)\<rparr>, Inr ()))"

definition downloadImage :: "env \<Rightarrow> world \<Rightarrow> string \<Rightarrow> world \<times> (error + byte list)" where
  "downloadImage ev w url =
     (let w' = w\<lparr>net_log := net_log w @ [Get url]\<rparr>
      in case get_url ev url of
           GetOk bytes \<Rightarrow> (w', Inr bytes)
         | GetFailed m \<Rightarrow> (w', Inl (DownloadFailed m)))"

text \<open>
  \<open>`${data.error?.message || 'Unknown error'}`\<close>, evaluated in the \<open>catch\<close> block
  of \<open>callOpenAIImageAPI\<close>. Reading \<open>data.error\<close> throws a \<open>TypeError\<close> when
  \<open>data\<close> is \<open>null\<close> or \<open>undefined\<close>; nothing catches it there, so it is the error
  that leaves the function.
\<close>

definition upstream_detail :: "jsval \<Rightarrow> error + string" where
  "upstream_detail data =
     (if data = JUndefined \<or> data = JNull
      then Inl (TypeError (''Cannot read properties of '' @ to_string data @ '' (reading 'error')''))
      else Inr (to_string (js_or (opt_get_prop (get_prop data ''error'') ''message'')
                             (JStr ''Unknown error''))))"

definition adjustedPrompt :: "string \<Rightarrow> jsval \<Rightarrow> string" where
  "adjustedPrompt prompt transparent0 =
     (if truthy (default_true transparent0)
      then prompt @ '' with transparent background'' else prompt)"

definition callOpenAIImageAPI ::
  "env \<Rightarrow> world \<Rightarrow> string \<Rightarrow> jsval \<Rightarrow> jsval \<Rightarrow> world \<times> (error + string list option)" where
  "callOpenAIImageAPI ev w prompt key transparent0 =
     (let w' = w\<lparr>net_log := net_log w @ [Post (adjustedPrompt prompt transparent0) key]\<rparr>
      in case post_images ev (adjustedPrompt prompt transparent0) key of
           PostOk body \<Rightarrow> (w', Inr body)
         | PostHttpError st data \<Rightarrow>
             (w', Inl (if st = 401 then ApiKeyInvalid
                       else if st = 429 then RateLimitExceeded
                       else if st = 400 then
                         (case upstream_detail data of
                            Inl e \<Rightarrow> e | Inr d \<Rightarrow> BadRequest d)
                       else
                         (case upstream_detail data of
                            Inl e \<Rightarrow> e | Inr d \<Rightarrow> OpenAIError st d)))
         | PostFailed m \<Rightarrow> (w', Inl (CallFailed m)))"

text \<open>The end of \<open>generateImage\<close>: the image is saved and the metadata returned.\<close>

definition image_result :: "string \<Rightarrow> string \<Rightarrow> request_body \<Rightarrow> generated" where
  "image_result filePath filename b =
     \<lparr>status = ''success'', file_path = filePath, file_name = filename,
      meta = \<lparr>meta_format = ''png'', meta_style = js_or (style b) (JStr ''default''),
              meta_dimensions = ''256x256'', meta_transparent = transparent b,
              meta_query = query b\<rparr>\<rparr>"

definition save_and_return ::
  "env \<Rightarrow> world \<Rightarrow> string \<Rightarrow> string \<Rightarrow> byte list \<Rightarrow> request_body \<Rightarrow>
   world \<times> (error + generated)" where
  "save_and_return ev w filePath filename imageData b =
     (case saveImageToDisk ev w filePath imageData of
        (w', Inl e) \<Rightarrow> (w', Inl e)
      | (w', Inr u) \<Rightarrow> (w', Inr (image_result filePath filename b)))"

text \<open>The message of the \<open>TypeError\<close> for \<open>query.toLowerCase()\<close> on no string.\<close>

definition toLowerCase_error :: "jsval \<Rightarrow> error" where
  "toLowerCase_error v =
     (if v = JUndefined \<or> v = JNull
      then TypeError (''Cannot read properties of '' @ to_string v @ '' (reading 'toLowerCase')'')
      else TypeError ''query.toLowerCase is not a function'')"

text \<open>
  \<open>generateImage\<close> of the service that calls the provider. \<open>storage\<close> is
  \<open>config.assetStorage.path\<close>; the fields of \<open>b\<close> are the destructured parameters.
\<close>

definition generateImage ::
  "env \<Rightarrow> string \<Rightarrow> world \<Rightarrow> request_body \<Rightarrow> world \<times> (error + generated)" where
  "generateImage ev storage w b =
     (case query b of
        JStr q \<Rightarrow>
          (let filename = generateFilename q (format b) (uuid ev);
               filePath = path_join ev storage filename
           in if strict_eq (provider b) (JStr ''openai'') then
                (case callOpenAIImageAPI ev w q (api_key b) (transparent b) of
                   (w1, Inl e) \<Rightarrow> (w1, Inl e)
                 | (w1, Inr response) \<Rightarrow>
                     (case response of
                        Some (imageUrl # others) \<Rightarrow>
                          (case downloadImage ev w1 imageUrl of
                             (w2, Inl e) \<Rightarrow> (w2, Inl e)
                           | (w2, Inr imageData) \<Rightarrow>
                               save_and_return ev w2 filePath filename imageData b)
                      | Some [] \<Rightarrow> (w1, Inl NoImageData)
                      | None \<Rightarrow> (w1, Inl NoImageData)))
              else save_and_return ev w filePath filename
                     (getPlaceholderImageData (transparent b)) b)
      | v \<Rightarrow> (w, Inl (toLowerCase_error v)))"

subsection \<open>The service that only writes the placeholder\<close>

text \<open>
  \<open>createPlaceholderImage\<close> and \<open>generateImage\<close> of the second service file. Its
  one-second wait before the work has no counterpart here.
\<close>

definition createPlaceholderImage ::
  "env \<Rightarrow> world \<Rightarrow> string \<Rightarrow> jsval \<Rightarrow> world \<times> (error + unit)" where
  "createPlaceholderImage ev w filePath transparent0 =
     (case disk_fault ev filePath of
        Some m \<Rightarrow> (w, Inl (PlaceholderFailed m))
      | None \<Rightarrow>
          (w\<lparr>files := (files w)(filePath \<mapsto> getPlaceholderImageData transparent0)\<rparr>, Inr ()))"

definition generateImage_placeholder ::
  "env \<Rightarrow> string \<Rightarrow> world \<Rightarrow> request_body \<Rightarrow> world \<times> (error + generated)" where
  "generateImage_placeholder ev storage w b =
     (case query b of
        JStr q \<Rightarrow>
          (let filename = generateFilename q (format b) (uuid ev);
               filePath = path_join ev storage filename
           in case createPlaceholderImage ev w filePath (transparent b) of
                (w', Inl e) \<Rightarrow> (w', Inl e)
              | (w', Inr u) \<Rightarrow> (w', Inr (image_result filePath filename b)))
      | v \<Rightarrow> (w, Inl (toLowerCase_error v)))"

subsection \<open>generateAsset\<close>

text \<open>
  \<open>generateAsset\<close>, the same in both services; \<open>this_generateImage\<close> is the
  \<open>generateImage\<close> of the service it belongs to.
\<close>

definition generateAsset ::
  "(world \<Rightarrow> request_body \<Rightarrow> world \<times> (error + generated)) \<Rightarrow> jsval \<Rightarrow> world \<Rightarrow>
   request_body \<Rightarrow> world \<times> (error + generated)" where
  "generateAsset this_generateImage cfg w b =
     (let provider0 = (if provider b = JUndefined then JNull else provider b);
          transparent1 = default_true (transparent b);
          provider1 = js_or provider0 (getDefaultProvider cfg);
          api_key1 = js_or (api_key b) (getDefaultApiKey cfg provider1)
      in if \<not> truthy api_key1 then (w, Inl (NoApiKey (to_string provider1)))
         else if strict_eq (type b) (JStr ''image'')
           then this_generateImage w
                  (b\<lparr>api_key := api_key1, provider := provider1, transparent := transparent1\<rparr>)
         else (w, Inl (UnsupportedAssetType (to_string (type b)))))"


subsection \<open>Reading a PNG header\<close>

text \<open>
  The eight bytes of the signature, the length and the name of the first chunk, then
  width and height as big-endian 32-bit numbers, the bit depth and the colour type.
\<close>

definition be32 :: "byte list \<Rightarrow> nat" where
  "be32 bs = foldl (\<lambda>acc x. acc * 256 + unat x) 0 (take 4 bs)"

definition png_size :: "byte list \<Rightarrow> (nat \<times> nat) option" where
  "png_size bs =
     (if take 8 bs = [137, 80, 78, 71, 13, 10, 26, 10] \<and> take 4 (drop 12 bs) = [73, 72, 68, 82]
      then Some (be32 (drop 16 bs), be32 (drop 20 bs)) else None)"

text \<open>Colour types 4 and 6 carry an alpha channel, 0 and 2 none.\<close>

definition png_has_alpha :: "byte list \<Rightarrow> bool" where
  "png_has_alpha bs = (take 1 (drop 25 bs) = [4] \<or> take 1 (drop 25 bs) = [6])"


section \<open>The controller\<close>

text \<open>\<open>hay.includes(needle)\<close> on strings.\<close>

fun str_includes :: "string \<Rightarrow> string \<Rightarrow> bool" where
  "str_includes [] needle = (needle = [])"
| "str_includes (c # cs) needle =
     (take (length needle) (c # cs) = needle \<or> str_includes cs needle)"

text \<open>An answer: status 200 with the result, or an error status, message and details.\<close>

datatype response =
    SuccessResponse generated
  | ErrorResponse nat string "string option"

text \<open>
  \<open>AssetController.generateAsset\<close>; \<open>service\<close> is \<open>assetService.generateAsset\<close>.
\<close>

definition controller_generateAsset ::
  "(world \<Rightarrow> request_body \<Rightarrow> world \<times> (error + generated)) \<Rightarrow> world \<Rightarrow> request_body \<Rightarrow>
   world \<times> response" where
  "controller_generateAsset service w b =
     (case service w b of
        (w', Inr result) \<Rightarrow> (w', SuccessResponse result)
      | (w', Inl e) \<Rightarrow>
          (w', if str_includes (error_message e) ''API key''
                 then ErrorResponse 401 ''Invalid or missing API key.'' (Some (error_message e))
               else if str_includes (error_message e) ''provider''
                 then ErrorResponse 400 ''Invalid provider specified.'' (Some (error_message e))
               else if str_includes (error_message e) ''rate limit''
                 then ErrorResponse 429 ''Rate limit exceeded. Please try again later.''
                        (Some (error_message e))
               else ErrorResponse 500 ''An error occurred while generating the asset.''
                      (Some (error_message e))))"


section \<open>The rate limiter\<close>

record rate_window =
  count :: nat
  windowStart :: int

text \<open>
  Modelled from the spec: the counter behind \<open>apiRateLimiter\<close>. The source only
  configures it (\<open>windowMs\<close>, \<open>max\<close>, the message) and takes the counting from the
  package \<open>express-rate-limit\<close>, which is not part of the source. The specification
  gives the algorithm: if \<open>now - windowStart >= W\<close>, reset \<open>count = 0\<close> and
  \<open>windowStart = now\<close>; increment \<open>count\<close>; reject if \<open>count > max\<close>. A client not
  seen before starts a window at its first request.
\<close>

definition window_step :: "int \<Rightarrow> int \<Rightarrow> rate_window option \<Rightarrow> rate_window" where
  "window_step W now cur =
     (let w = (case cur of
                 None \<Rightarrow> \<lparr>count = 0, windowStart = now\<rparr>
               | Some w0 \<Rightarrow>
                   if W \<le> now - windowStart w0 then \<lparr>count = 0, windowStart = now\<rparr> else w0)
      in w\<lparr>count := count w + 1\<rparr>)"

text \<open>
  Modelled from the spec: one request of \<open>client\<close> at time \<open>now\<close> through the limiter
  with window length \<open>W\<close> and limit \<open>mx\<close>. The result is the new table of windows and
  whether the request is allowed.
\<close>

definition apiRateLimiter ::
  "int \<Rightarrow> int \<Rightarrow> int \<Rightarrow> string \<Rightarrow> (string \<rightharpoonup> rate_window) \<Rightarrow> (string \<rightharpoonup> rate_window) \<times> bool" where
  "apiRateLimiter W mx now client st =
     (let w = window_step W now (st client)
      in (st(client \<mapsto> w), \<not> mx < int (count w)))"

text \<open>The table of windows after a list of requests, each a client and its time.\<close>

fun limiter_run ::
  "int \<Rightarrow> int \<Rightarrow> (string \<rightharpoonup> rate_window) \<Rightarrow> (string \<times> int) list \<Rightarrow> (string \<rightharpoonup> rate_window)" where
  "limiter_run W mx st [] = st"
| "limiter_run W mx st ((c, t) # evs) = limiter_run W mx (fst (apiRateLimiter W mx t c st)) evs"


section \<open>The route\<close>

text \<open>
  \<open>router.post('/generate', apiRateLimiter, validateGenerateRequest,
  assetController.generateAsset)\<close>: each middleware either answers or hands on to the
  next. The state is the table of the limiter and the world; \<open>service\<close> is the
  \<open>generateAsset\<close> of the asset service in use.
\<close>

definition post_generate ::
  "int \<Rightarrow> int \<Rightarrow> (world \<Rightarrow> request_body \<Rightarrow> world \<times> (error + generated)) \<Rightarrow> jsval \<Rightarrow>
   int \<Rightarrow> string \<Rightarrow> (string \<rightharpoonup> rate_window) \<times> world \<Rightarrow> request_body \<Rightarrow>
   ((string \<rightharpoonup> rate_window) \<times> world) \<times> response" where
  "post_generate W mx service cfg now client s b =
     (case apiRateLimiter W mx now client (fst s) of
        (st', allowed) \<Rightarrow>
          if \<not> allowed
            then ((st', snd s), ErrorResponse 429 ''Too many requests, please try again later.'' None)
          else
            (case validateGenerateRequest cfg b of
               Some f \<Rightarrow> ((st', snd s), ErrorResponse 400 (failure_message f) None)
             | None \<Rightarrow>
                 (case controller_generateAsset service (snd s) b of
                    (w', r) \<Rightarrow> ((st', w'), r))))"


section \<open>Joining paths\<close>

text \<open>
  \<open>path.join(a, b)\<close> of Node on a POSIX system: the arguments that are not empty
  are joined with \<open>/\<close> and the result is normalised. Empty segments and \<open>.\<close> are
  dropped, \<open>..\<close> takes the segment before it away (and stays where a relative path
  has none left), a leading and a trailing \<open>/\<close> are kept, and the empty result is
  \<open>.\<close>.
\<close>

fun split_at :: "char \<Rightarrow> string \<Rightarrow> string list" where
  "split_at c [] = [[]]"
| "split_at c (x # xs) =
     (if x = c then [] # split_at c xs
      else (case split_at c xs of y # ys \<Rightarrow> (x # y) # ys | [] \<Rightarrow> [[x]]))"

fun normalize_segments :: "bool \<Rightarrow> string list \<Rightarrow> string list \<Rightarrow> string list" where
  "normalize_segments allowAboveRoot res [] = rev res"
| "normalize_segments allowAboveRoot res (seg # segs) =
     (if seg = [] \<or> seg = ''.'' then normalize_segments allowAboveRoot res segs
      else if seg = ''..'' then
        (case res of
           lastSeg # kept \<Rightarrow>
             if lastSeg \<noteq> ''..'' then normalize_segments allowAboveRoot kept segs
             else if allowAboveRoot then normalize_segments allowAboveRoot (''..'' # res) segs
             else normalize_segments allowAboveRoot res segs
         | [] \<Rightarrow>
             if allowAboveRoot then normalize_segments allowAboveRoot [''..''] segs
             else normalize_segments allowAboveRoot [] segs)
      else normalize_segments allowAboveRoot (seg # res) segs)"

definition path_normalize :: "string \<Rightarrow> string" where
  "path_normalize p =
     (if p = [] then ''.''
      else
        (let isAbsolute = (hd p = CHR ''/'');
             trailingSeparator = (last p = CHR ''/'');
             r = intercalate ''/'' (normalize_segments (\<not> isAbsolute) [] (split_at (CHR ''/'') p))
         in if r = [] then (if isAbsolute then ''/'' else if trailingSeparator then ''./'' else ''.'')
            else (if isAbsolute then ''/'' else []) @ r @ (if trailingSeparator then ''/'' else [])))"

definition path_join_posix :: "string \<Rightarrow> string \<Rightarrow> string" where
  "path_join_posix a b =
     (if a = [] \<and> b = [] then ''.''
      else if a = [] then path_normalize b
      else if b = [] then path_normalize a
      else path_normalize (a @ ''/'' @ b))"


section \<open>A sample installation\<close>

text \<open>
  A configuration file as the command line tool writes it, surroundings in which the
  provider answers with one image and the disk works, an empty world and a request.
\<close>

definition example_config :: jsval where
  "example_config =
     JObj [(''provider'', JStr ''openai''), (''apiKey'', JStr ''sk-configured''),
           (''storagePath'', JStr ''./generated-assets'')]"

definition example_env :: env where
  "example_env =
     \<lparr>uuid = ''1b9d6bcd-bbfd-4b2d-9b5d-ab8dfbbd4bed'',
      post_images = (\<lambda>prompt key. PostOk (Some [''https://images.example/1.png''])),
      get_url = (\<lambda>url. GetOk [1, 2, 3]),
      disk_fault = (\<lambda>filePath. None),
      path_join = path_join_posix\<rparr>"

definition example_world :: world where
  "example_world = \<lparr>files = Map.empty, net_log = []\<rparr>"

definition example_body :: request_body where
  "example_body =
     \<lparr>query = JStr ''Red Apple'', type = JStr ''image'', format = JStr ''icon'',
      style = JUndefined, api_key = JStr ''sk-user'', provider = JStr ''openai'',
      transparent = JUndefined\<rparr>"


section \<open>Filename generation\<close>

lemma replace_takeWhile:
  "replace_non_alnum cs =
     takeWhile is_lower_alnum cs @ replace_non_alnum (dropWhile is_lower_alnum cs)"
  by (induction cs) auto

lemma replace_is_collapse: "replace_non_alnum s = spec_collapse_runs s"
proof (induction s rule: runs.induct)
  case 1
  show ?case by (simp add: spec_collapse_runs_def)
next
  case (2 c cs)
  show ?case
  proof (cases "is_lower_alnum c")
    case True
    with 2 have IH: "replace_non_alnum (dropWhile is_lower_alnum cs) =
        spec_collapse_runs (dropWhile is_lower_alnum cs)"
      by simp
    have "replace_non_alnum (c # cs) =
        c # takeWhile is_lower_alnum cs @ replace_non_alnum (dropWhile is_lower_alnum cs)"
      using True replace_takeWhile[of cs] by simp
    also have "\<dots> = spec_collapse_runs (c # cs)"
      using True IH by (simp add: spec_collapse_runs_def)
    finally show ?thesis .
  next
    case False
    with 2 have IH: "replace_non_alnum (dropWhile (\<lambda>d. \<not> is_lower_alnum d) cs) =
        spec_collapse_runs (dropWhile (\<lambda>d. \<not> is_lower_alnum d) cs)"
      by simp
    show ?thesis using False IH by (simp add: spec_collapse_runs_def)
  qed
qed

lemma strip_scan_False: "strip_scan False s = strip_trailing s"
  by (induction s) (auto simp: strip_trailing_def)

lemma strip_scan_True: "strip_scan True s = spec_strip s"
  by (cases s) (auto simp: spec_strip_def strip_leading_def strip_scan_False strip_trailing_def)

lemma slug_is_spec_slug: "slug q = spec_slug q"
  by (simp add: slug_def spec_slug_def replace_is_collapse strip_scan_True)

text \<open>
  C1: for every query string and format, \<open>generateFilename\<close> returns what the five
  steps of the specification give when applied in their order: lower-case the query,
  replace each maximal run outside \<open>[a-z0-9]\<close> by one \<open>_\<close>, strip one leading and one
  trailing \<open>_\<close>, truncate to 50 characters, then append \<open>_\<close>, the format (\<open>image\<close> when
  no format is provided), \<open>_\<close>, the first 8 characters of the identifier and \<open>.png\<close>.
  For a version 4 identifier these 8 characters are hexadecimal digits.
\<close>

theorem generateFilename_follows_spec:
  "generateFilename q fmt u = spec_filename q fmt u \<and>
   (is_uuid_v4 u \<longrightarrow> length (take 8 u) = 8 \<and> list_all is_hex (take 8 u))"
  by (simp add: generateFilename_def spec_filename_def slug_is_spec_slug js_or_def
      is_uuid_v4_def)

theorem generateFilename_follows_spec_witness:
  "is_uuid_v4 ''1b9d6bcd-bbfd-4b2d-9b5d-ab8dfbbd4bed'' \<and>
   generateFilename ''Pixelated  Sprite -- of a CARROT!'' (JStr ''sprite'')
     ''1b9d6bcd-bbfd-4b2d-9b5d-ab8dfbbd4bed''
   = ''pixelated_sprite_of_a_carrot_sprite_1b9d6bcd.png'' \<and>
   generateFilename ''Pixelated  Sprite -- of a CARROT!'' JUndefined
     ''1b9d6bcd-bbfd-4b2d-9b5d-ab8dfbbd4bed''
   = ''pixelated_sprite_of_a_carrot_image_1b9d6bcd.png'' \<and>
   list_all is_hex ''1b9d6bcd''"
proof -
  have v: "is_uuid_v4 ''1b9d6bcd-bbfd-4b2d-9b5d-ab8dfbbd4bed''"
    by code_simp
  have s: "spec_filename ''Pixelated  Sprite -- of a CARROT!'' (JStr ''sprite'')
      ''1b9d6bcd-bbfd-4b2d-9b5d-ab8dfbbd4bed''
    = ''pixelated_sprite_of_a_carrot_sprite_1b9d6bcd.png''"
    by code_simp
  have t: "spec_filename ''Pixelated  Sprite -- of a CARROT!'' JUndefined
      ''1b9d6bcd-bbfd-4b2d-9b5d-ab8dfbbd4bed''
    = ''pixelated_sprite_of_a_carrot_image_1b9d6bcd.png''"
    by code_simp
  show ?thesis
    using v s t
      generateFilename_follows_spec[of "''Pixelated  Sprite -- of a CARROT!''" "JStr ''sprite''"
        "''1b9d6bcd-bbfd-4b2d-9b5d-ab8dfbbd4bed''"]
      generateFilename_follows_spec[of "''Pixelated  Sprite -- of a CARROT!''" JUndefined
        "''1b9d6bcd-bbfd-4b2d-9b5d-ab8dfbbd4bed''"]
    by simp
qed

lemma underscore_not_alnum: "\<not> is_lower_alnum (CHR ''_'')"
  by (simp add: is_lower_alnum_def)

lemma lower_char_fixed: "is_lower_alnum c \<or> c = CHR ''_'' \<Longrightarrow> lower_char c = c"
  by (auto simp: lower_char_def is_upper_def is_lower_alnum_def Let_def)

lemma toLowerCase_fixed:
  "list_all (\<lambda>c. is_lower_alnum c \<or> c = CHR ''_'') x \<Longrightarrow> toLowerCase x = x"
  unfolding toLowerCase_def
  by (induction x) (simp_all add: lower_char_fixed)

lemma replace_fixed:
  "list_all (\<lambda>c. is_lower_alnum c \<or> c = CHR ''_'') x \<Longrightarrow> single_underscores x \<Longrightarrow>
   replace_non_alnum x = x"
  by (induction x rule: single_underscores.induct) (auto simp: underscore_not_alnum)

lemma strip_fixed:
  "x = [] \<or> (hd x \<noteq> CHR ''_'' \<and> last x \<noteq> CHR ''_'') \<Longrightarrow> spec_strip x = x"
  by (cases x) (auto simp: spec_strip_def strip_leading_def strip_trailing_def)

text \<open>
  C7: a string that is already lower-case, made of \<open>[a-z0-9]\<close> and single underscores
  only, with no underscore first or last and at most 50 characters long, is left
  unchanged by the slug transformation.
\<close>

theorem slug_fixes_normal_strings:
  assumes "slug_normal x"
  shows "slug x = x"
proof -
  from assms have chars: "list_all (\<lambda>c. is_lower_alnum c \<or> c = CHR ''_'') x"
    and single: "single_underscores x"
    and ends: "x = [] \<or> (hd x \<noteq> CHR ''_'' \<and> last x \<noteq> CHR ''_'')"
    and len: "length x \<le> 50"
    by (simp_all add: slug_normal_def)
  have "toLowerCase x = x"
    using chars by (rule toLowerCase_fixed)
  moreover have "replace_non_alnum x = x"
    using chars single by (rule replace_fixed)
  moreover have "strip_scan True x = x"
    using ends by (simp add: strip_scan_True strip_fixed)
  ultimately show ?thesis
    using len by (simp add: slug_def)
qed

theorem slug_fixes_normal_strings_witness:
  "slug_normal ''red_apple_2'' \<and> slug ''red_apple_2'' = ''red_apple_2''"
proof -
  have n: "slug_normal ''red_apple_2''"
    by code_simp
  show ?thesis
    using n slug_fixes_normal_strings[OF n] by simp
qed

text \<open>
  C8, as stated: two calls with the same query and format never return the same
  filename. It fails: two different version 4 identifiers that agree on their first
  eight characters give the same filename.
\<close>

theorem filename_collision_counterexample:
  "is_uuid_v4 ''1b9d6bcd-bbfd-4b2d-9b5d-ab8dfbbd4bed'' \<and>
   is_uuid_v4 ''1b9d6bcd-0000-4000-8000-000000000000'' \<and>
   ''1b9d6bcd-bbfd-4b2d-9b5d-ab8dfbbd4bed'' \<noteq> ''1b9d6bcd-0000-4000-8000-000000000000'' \<and>
   generateFilename ''carrot'' (JStr ''icon'') ''1b9d6bcd-bbfd-4b2d-9b5d-ab8dfbbd4bed''
   = generateFilename ''carrot'' (JStr ''icon'') ''1b9d6bcd-0000-4000-8000-000000000000''"
proof -
  have "is_uuid_v4 ''1b9d6bcd-bbfd-4b2d-9b5d-ab8dfbbd4bed''"
    by code_simp
  moreover have "is_uuid_v4 ''1b9d6bcd-0000-4000-8000-000000000000''"
    by code_simp
  ultimately show ?thesis
    by (simp add: generateFilename_def)
qed

text \<open>
  C8, amended: two calls with the same query and format return the same filename
  exactly when the identifiers generated for them agree on their first eight
  characters; whenever these differ, the filenames differ.
\<close>

theorem filenames_differ_iff_suffixes_differ:
  "(generateFilename q fmt u1 = generateFilename q fmt u2) = (take 8 u1 = take 8 u2)"
  by (simp add: generateFilename_def)

theorem filenames_differ_iff_suffixes_differ_witness:
  "generateFilename ''carrot'' (JStr ''icon'') ''1b9d6bcd-bbfd-4b2d-9b5d-ab8dfbbd4bed''
   \<noteq> generateFilename ''carrot'' (JStr ''icon'') ''9c5b94b1-35ad-49bb-b118-8e8fc24abf80''"
  using filenames_differ_iff_suffixes_differ[of "''carrot''" "JStr ''icon''"
      "''1b9d6bcd-bbfd-4b2d-9b5d-ab8dfbbd4bed''" "''9c5b94b1-35ad-49bb-b118-8e8fc24abf80''"]
  by simp


section \<open>Configuration and validation\<close>

lemma no_default_key:
  "\<not> truthy (get_prop cfg ''apiKey'') \<Longrightarrow> \<not> truthy (getDefaultApiKey cfg p)"
  by (simp add: getDefaultApiKey_def)

lemma validate_is_first_failure:
  "validateGenerateRequest cfg b = first_failure (validation_rules cfg b)"
  by (simp add: validateGenerateRequest_def first_failure_def validation_rules_def Let_def)

lemma validate_without_key:
  assumes "\<not> truthy (api_key b)" and "\<not> truthy (getDefaultApiKey cfg (js_or (provider b) (getDefaultProvider cfg)))"
    and "first_failure (take 4 (validation_rules cfg b)) = None"
  shows "validateGenerateRequest cfg b = Some MissingApiKey"
  using assms
  by (simp add: validateGenerateRequest_def first_failure_def validation_rules_def Let_def
      split: if_splits)

lemma validate_without_key_rejects:
  assumes "\<not> truthy (api_key b)" and "\<not> truthy (getDefaultApiKey cfg (js_or (provider b) (getDefaultProvider cfg)))"
  shows "validateGenerateRequest cfg b \<noteq> None"
  using assms
  by (simp add: validateGenerateRequest_def Let_def)

lemma route_validation_failure:
  assumes "snd (apiRateLimiter W mx now client (fst s))" "validateGenerateRequest cfg b = Some f"
  shows "snd (post_generate W mx service cfg now client s b) = ErrorResponse 400 (failure_message f) None"
    and "snd (fst (post_generate W mx service cfg now client s b)) = snd s"
  using assms by (cases "apiRateLimiter W mx now client (fst s)"; simp add: post_generate_def)+

text \<open>
  C3: for every request body the middleware answers with the failure of the first
  violated rule, in the order query, type present, type \<open>image\<close>, format, api key,
  provider, transparent; no failures are collected. In particular a body without an
  api key, with no key configured, that passes the rules on query, type and format
  gets the missing \<open>api_key\<close> answer whatever its provider is, also one outside the
  list of providers; the route then answers 400 and leaves the world as it was: no call
  is sent and no file written.
\<close>

theorem validation_first_failure_wins:
  "validateGenerateRequest cfg b = first_failure (validation_rules cfg b) \<and>
   (\<not> truthy (api_key b) \<and> \<not> truthy (get_prop cfg ''apiKey'') \<and>
    first_failure (take 4 (validation_rules cfg b)) = None \<longrightarrow>
      validateGenerateRequest cfg b = Some MissingApiKey \<and>
      (snd (apiRateLimiter W mx now client (fst s)) \<longrightarrow>
         snd (post_generate W mx service cfg now client s b) =
           ErrorResponse 400 (failure_message MissingApiKey) None \<and>
         snd (fst (post_generate W mx service cfg now client s b)) = snd s))"
proof (intro conjI impI)
  show "validateGenerateRequest cfg b = first_failure (validation_rules cfg b)"
    by (rule validate_is_first_failure)
next
  assume h: "\<not> truthy (api_key b) \<and> \<not> truthy (get_prop cfg ''apiKey'') \<and>
    first_failure (take 4 (validation_rules cfg b)) = None"
  then show v: "validateGenerateRequest cfg b = Some MissingApiKey"
    using no_default_key[of cfg "js_or (provider b) (getDefaultProvider cfg)"]
    by (simp add: validate_without_key)
  assume a: "snd (apiRateLimiter W mx now client (fst s))"
  show "snd (post_generate W mx service cfg now client s b) =
      ErrorResponse 400 (failure_message MissingApiKey) None"
    using a v by (rule route_validation_failure(1))
  show "snd (fst (post_generate W mx service cfg now client s b)) = snd s"
    using a v by (rule route_validation_failure(2))
qed

theorem validation_first_failure_wins_witness:
  "\<not> truthy (api_key (example_body\<lparr>api_key := JUndefined, provider := JStr ''dalle''\<rparr>)) \<and>
   \<not> truthy (get_prop (loadConfig NoFile) ''apiKey'') \<and>
   \<not> array_includes [''openai'', ''stability'', ''replicate'']
        (provider (example_body\<lparr>api_key := JUndefined, provider := JStr ''dalle''\<rparr>)) \<and>
   validateGenerateRequest (loadConfig NoFile)
     (example_body\<lparr>api_key := JUndefined, provider := JStr ''dalle''\<rparr>) = Some MissingApiKey \<and>
   snd (post_generate 60000 10
     (generateAsset (generateImage example_env ''./generated-assets'') (loadConfig NoFile))
     (loadConfig NoFile) 0 ''10.0.0.1'' (Map.empty, example_world)
     (example_body\<lparr>api_key := JUndefined, provider := JStr ''dalle''\<rparr>))
   = ErrorResponse 400
        ''Missing required field: api_key. You must provide your own API key or configure one using the CLI.''
        None \<and>
   snd (fst (post_generate 60000 10
     (generateAsset (generateImage example_env ''./generated-assets'') (loadConfig NoFile))
     (loadConfig NoFile) 0 ''10.0.0.1'' (Map.empty, example_world)
     (example_body\<lparr>api_key := JUndefined, provider := JStr ''dalle''\<rparr>)))
   = example_world"
proof -
  let ?b = "example_body\<lparr>api_key := JUndefined, provider := JStr ''dalle''\<rparr>"
  let ?cfg = "loadConfig NoFile"
  let ?s = "(Map.empty :: string \<rightharpoonup> rate_window, example_world)"
  let ?svc = "generateAsset (generateImage example_env ''./generated-assets'') ?cfg"
  have k: "\<not> truthy (api_key ?b)" by simp
  have d: "\<not> truthy (get_prop ?cfg ''apiKey'')" by (simp add: default_config_def)
  have e: "first_failure (take 4 (validation_rules ?cfg ?b)) = None"
    by (simp add: first_failure_def validation_rules_def example_body_def)
  have a: "snd (apiRateLimiter 60000 10 0 ''10.0.0.1'' (fst ?s))"
    by (simp add: apiRateLimiter_def window_step_def)
  have p: "\<not> array_includes [''openai'', ''stability'', ''replicate''] (provider ?b)"
    by simp
  note T = validation_first_failure_wins[of ?cfg ?b 60000 10 0 "''10.0.0.1''" ?s ?svc]
  from T k d e have r1: "validateGenerateRequest ?cfg ?b = Some MissingApiKey"
    by blast
  from T k d e a have r2:
    "snd (post_generate 60000 10 ?svc ?cfg 0 ''10.0.0.1'' ?s ?b) =
       ErrorResponse 400 (failure_message MissingApiKey) None"
    by blast
  from T k d e a have r3: "snd (fst (post_generate 60000 10 ?svc ?cfg 0 ''10.0.0.1'' ?s ?b)) = snd ?s"
    by blast
  from r2 have r2': "snd (post_generate 60000 10 ?svc ?cfg 0 ''10.0.0.1'' ?s ?b) =
       ErrorResponse 400
        ''Missing required field: api_key. You must provide your own API key or configure one using the CLI.''
        None"
    by simp
  from r3 have r3': "snd (fst (post_generate 60000 10 ?svc ?cfg 0 ''10.0.0.1'' ?s ?b)) = example_world"
    by simp
  show ?thesis
    using k d p r1 r2' r3' by blast
qed

text \<open>
  C6: when the configuration file is absent, unreadable or not valid JSON, the
  service holds exactly \<open>{provider: "openai", apiKey: null, storagePath:
  "./generated-assets"}\<close>; \<open>getDefaultProvider\<close> returns \<open>"openai"\<close> and
  \<open>getDefaultApiKey\<close> returns \<open>null\<close> for every provider.
\<close>

theorem config_fallback:
  assumes "f = NoFile \<or> f = Unreadable \<or> f = Malformed"
  shows "loadConfig f =
      JObj [(''provider'', JStr ''openai''), (''apiKey'', JNull),
            (''storagePath'', JStr ''./generated-assets'')] \<and>
    getDefaultProvider (loadConfig f) = JStr ''openai'' \<and>
    (\<forall>p. getDefaultApiKey (loadConfig f) p = JNull)"
proof -
  from assms have l: "loadConfig f = default_config" by auto
  have "getDefaultProvider default_config = JStr ''openai''"
    by (simp add: getDefaultProvider_def default_config_def opt_get_prop_def js_or_def)
  moreover have "getDefaultApiKey default_config p = JNull" for p
    by (simp add: getDefaultApiKey_def default_config_def)
  ultimately show ?thesis using l by (simp add: default_config_def)
qed

theorem config_fallback_witness:
  "getDefaultProvider (loadConfig Malformed) = JStr ''openai'' \<and>
   getDefaultApiKey (loadConfig Malformed) (JStr ''openai'') = JNull \<and>
   getDefaultApiKey (loadConfig Malformed) (JStr ''stability'') = JNull \<and>
   get_prop (loadConfig Unreadable) ''storagePath'' = JStr ''./generated-assets'' \<and>
   get_prop (loadConfig NoFile) ''apiKey'' = JNull"
  using config_fallback[of Malformed] config_fallback[of Unreadable] config_fallback[of NoFile]
  by (simp add: default_config_def)

lemma getDefaultApiKey_other:
  "\<not> strict_eq p (get_prop cfg ''provider'') \<Longrightarrow> getDefaultApiKey cfg p = JNull"
  by (simp add: getDefaultApiKey_def)

text \<open>
  C10: \<open>getDefaultApiKey\<close> returns the configured key for a provider that is
  strictly equal to the configured one and \<open>null\<close> for every other provider. So a
  request that names another provider and brings no key of its own is always rejected
  by the validation, with the missing \<open>api_key\<close> answer once the rules on query, type
  and format are passed, whatever key is configured.
\<close>

theorem default_key_only_for_configured_provider:
  "(\<not> strict_eq p (get_prop cfg ''provider'') \<longrightarrow> getDefaultApiKey cfg p = JNull) \<and>
   (truthy cfg \<and> strict_eq p (get_prop cfg ''provider'') \<longrightarrow>
      getDefaultApiKey cfg p = get_prop cfg ''apiKey'') \<and>
   (truthy (provider b) \<and> \<not> strict_eq (provider b) (get_prop cfg ''provider'') \<and>
    \<not> truthy (api_key b) \<longrightarrow>
      validateGenerateRequest cfg b \<noteq> None \<and>
      (first_failure (take 4 (validation_rules cfg b)) = None \<longrightarrow>
         validateGenerateRequest cfg b = Some MissingApiKey))"
proof (intro conjI impI)
  show "getDefaultApiKey cfg p = JNull" if "\<not> strict_eq p (get_prop cfg ''provider'')"
    using that by (rule getDefaultApiKey_other)
  show "getDefaultApiKey cfg p = get_prop cfg ''apiKey''"
    if "truthy cfg \<and> strict_eq p (get_prop cfg ''provider'')"
    using that by (simp add: getDefaultApiKey_def)
next
  assume h: "truthy (provider b) \<and> \<not> strict_eq (provider b) (get_prop cfg ''provider'') \<and>
    \<not> truthy (api_key b)"
  then have "getDefaultApiKey cfg (js_or (provider b) (getDefaultProvider cfg)) = JNull"
    by (simp add: js_or_def getDefaultApiKey_other)
  then have nk: "\<not> truthy (getDefaultApiKey cfg (js_or (provider b) (getDefaultProvider cfg)))"
    by simp
  from h nk show "validateGenerateRequest cfg b \<noteq> None"
    by (simp add: validate_without_key_rejects)
  assume "first_failure (take 4 (validation_rules cfg b)) = None"
  with h nk show "validateGenerateRequest cfg b = Some MissingApiKey"
    by (simp add: validate_without_key)
qed

theorem default_key_only_for_configured_provider_witness:
  "get_prop (loadConfig (Parsed example_config)) ''apiKey'' = JStr ''sk-configured'' \<and>
   getDefaultApiKey (loadConfig (Parsed example_config)) (JStr ''openai'') = JStr ''sk-configured'' \<and>
   getDefaultApiKey (loadConfig (Parsed example_config)) (JStr ''stability'') = JNull \<and>
   validateGenerateRequest (loadConfig (Parsed example_config))
     (example_body\<lparr>api_key := JUndefined, provider := JStr ''stability''\<rparr>) = Some MissingApiKey \<and>
   validateGenerateRequest (loadConfig (Parsed example_config))
     (example_body\<lparr>api_key := JUndefined, provider := JStr ''openai''\<rparr>) = None"
proof -
  let ?cfg = "loadConfig (Parsed example_config)"
  let ?b = "example_body\<lparr>api_key := JUndefined, provider := JStr ''stability''\<rparr>"
  have c: "truthy ?cfg" "get_prop ?cfg ''provider'' = JStr ''openai''"
    "get_prop ?cfg ''apiKey'' = JStr ''sk-configured''"
    by (simp_all add: example_config_def)
  have e: "first_failure (take 4 (validation_rules ?cfg ?b)) = None"
    by (simp add: first_failure_def validation_rules_def example_body_def)
  have o: "validateGenerateRequest ?cfg (example_body\<lparr>api_key := JUndefined, provider := JStr ''openai''\<rparr>) = None"
    by (simp add: validateGenerateRequest_def example_body_def example_config_def
        getDefaultProvider_def getDefaultApiKey_def opt_get_prop_def js_or_def)
  show ?thesis
    using c e o
      default_key_only_for_configured_provider[of "JStr ''openai''" ?cfg ?b]
      default_key_only_for_configured_provider[of "JStr ''stability''" ?cfg ?b]
    by simp
qed


section \<open>The rate limiter and the route\<close>

lemma limiter_other_client:
  "c' \<noteq> c \<Longrightarrow> fst (apiRateLimiter W mx t c' st) c = st c"
  by (simp add: apiRateLimiter_def Let_def)

lemma limiter_same_window_state:
  "st c = Some w \<Longrightarrow> t - windowStart w < W \<Longrightarrow>
   fst (apiRateLimiter W mx t c st) c = Some \<lparr>count = count w + 1, windowStart = windowStart w\<rparr>"
  by (simp add: apiRateLimiter_def window_step_def Let_def)

lemma limiter_same_window_verdict:
  "st c = Some w \<Longrightarrow> t - windowStart w < W \<Longrightarrow>
   snd (apiRateLimiter W mx t c st) = (int (count w) + 1 \<le> mx)"
  by (auto simp: apiRateLimiter_def window_step_def Let_def)

lemma limiter_new_window_state:
  "st c = None \<or> (\<exists>w. st c = Some w \<and> W \<le> t - windowStart w) \<Longrightarrow>
   fst (apiRateLimiter W mx t c st) c = Some \<lparr>count = 1, windowStart = t\<rparr>"
  by (auto simp: apiRateLimiter_def window_step_def Let_def)

lemma limiter_new_window_verdict:
  "st c = None \<or> (\<exists>w. st c = Some w \<and> W \<le> t - windowStart w) \<Longrightarrow>
   snd (apiRateLimiter W mx t c st) = (1 \<le> mx)"
  by (auto simp: apiRateLimiter_def window_step_def Let_def)

lemma limiter_run_window:
  "st c = Some \<lparr>count = k, windowStart = t0\<rparr> \<Longrightarrow>
   \<forall>e\<in>set evs. fst e = c \<longrightarrow> snd e - t0 < W \<Longrightarrow>
   limiter_run W mx st evs c =
     Some \<lparr>count = k + length (filter (\<lambda>e. fst e = c) evs), windowStart = t0\<rparr>"
proof (induction evs arbitrary: st k)
  case Nil
  then show ?case by simp
next
  case (Cons e evs)
  obtain c' t where e: "e = (c', t)" by (cases e)
  show ?case
  proof (cases "c' = c")
    case True
    with Cons.prems e have inw: "t - t0 < W" by simp
    have st': "fst (apiRateLimiter W mx t c st) c = Some \<lparr>count = Suc k, windowStart = t0\<rparr>"
      using limiter_same_window_state[of st c "\<lparr>count = k, windowStart = t0\<rparr>" t W mx]
        Cons.prems(1) inw by simp
    have "limiter_run W mx (fst (apiRateLimiter W mx t c st)) evs c =
        Some \<lparr>count = Suc k + length (filter (\<lambda>e. fst e = c) evs), windowStart = t0\<rparr>"
      using Cons.IH[of "fst (apiRateLimiter W mx t c st)" "Suc k"] st' Cons.prems(2) by simp
    then show ?thesis using True e by simp
  next
    case False
    have st': "fst (apiRateLimiter W mx t c' st) c = Some \<lparr>count = k, windowStart = t0\<rparr>"
      using limiter_other_client[OF False, of W mx t st] Cons.prems(1) by simp
    have "limiter_run W mx (fst (apiRateLimiter W mx t c' st)) evs c =
        Some \<lparr>count = k + length (filter (\<lambda>e. fst e = c) evs), windowStart = t0\<rparr>"
      using Cons.IH[of "fst (apiRateLimiter W mx t c' st)" k] st' Cons.prems(2) by simp
    then show ?thesis using False e by simp
  qed
qed

lemma window_after_requests:
  assumes opens: "st c = None \<or> (\<exists>w. st c = Some w \<and> W \<le> t0 - windowStart w)"
    and within: "\<forall>e\<in>set evs. fst e = c \<longrightarrow> snd e - t0 < W"
  shows "limiter_run W mx st ((c, t0) # evs) c =
      Some \<lparr>count = 1 + length (filter (\<lambda>e. fst e = c) evs), windowStart = t0\<rparr>"
proof -
  let ?st1 = "fst (apiRateLimiter W mx t0 c st)"
  have s1: "?st1 c = Some \<lparr>count = 1, windowStart = t0\<rparr>"
    using opens by (rule limiter_new_window_state)
  have "limiter_run W mx ?st1 evs c =
      Some \<lparr>count = 1 + length (filter (\<lambda>e. fst e = c) evs), windowStart = t0\<rparr>"
    using limiter_run_window[of ?st1 c 1 t0 evs W mx] s1 within by simp
  then show ?thesis by simp
qed

lemma route_rejected:
  assumes "\<not> snd (apiRateLimiter W mx now client (fst s))"
  shows "snd (post_generate W mx service cfg now client s b) =
      ErrorResponse 429 ''Too many requests, please try again later.'' None \<and>
    snd (fst (post_generate W mx service cfg now client s b)) = snd s"
  using assms by (cases "apiRateLimiter W mx now client (fst s)") (simp add: post_generate_def)

text \<open>
  C9: a client opens a window with a request at \<open>t0\<close> and makes requests within it,
  other clients in between, until it has made \<open>max\<close> requests there. Its next request
  within the window, the \<open>(max + 1)\<close>-th, is rejected: the route answers 429 with the
  rate limit message without looking at the body and leaves the world as it was. The
  first request of the client at or after \<open>t0 + W\<close> is allowed again, although the
  count of the old window has passed the limit.
\<close>

theorem fixed_window_limit:
  assumes opens: "st c = None \<or> (\<exists>w. st c = Some w \<and> W \<le> t0 - windowStart w)"
    and within: "\<forall>e\<in>set evs. fst e = c \<longrightarrow> snd e - t0 < W"
    and full: "1 + int (length (filter (\<lambda>e. fst e = c) evs)) = mx"
    and last: "t - t0 < W"
    and after: "st' = limiter_run W mx st ((c, t0) # evs)"
  shows "snd (apiRateLimiter W mx t0 c st) \<and>
    \<not> snd (apiRateLimiter W mx t c st') \<and>
    snd (post_generate W mx service cfg t c (st', w) b) =
      ErrorResponse 429 ''Too many requests, please try again later.'' None \<and>
    snd (fst (post_generate W mx service cfg t c (st', w) b)) = w \<and>
    (\<forall>t2. W \<le> t2 - t0 \<longrightarrow>
       snd (apiRateLimiter W mx t2 c (fst (apiRateLimiter W mx t c st'))))"
proof -
  let ?n = "length (filter (\<lambda>e. fst e = c) evs)"
  have s2: "st' c = Some \<lparr>count = 1 + ?n, windowStart = t0\<rparr>"
    unfolding after using opens within by (rule window_after_requests)
  have rej: "\<not> snd (apiRateLimiter W mx t c st')"
    using limiter_same_window_verdict[of st' c "\<lparr>count = 1 + ?n, windowStart = t0\<rparr>" t W mx]
      s2 last full by simp
  have s3: "fst (apiRateLimiter W mx t c st') c = Some \<lparr>count = 2 + ?n, windowStart = t0\<rparr>"
    using limiter_same_window_state[of st' c "\<lparr>count = 1 + ?n, windowStart = t0\<rparr>" t W mx]
      s2 last by simp
  have nxt: "snd (apiRateLimiter W mx t2 c (fst (apiRateLimiter W mx t c st')))"
    if "W \<le> t2 - t0" for t2
  proof -
    have "snd (apiRateLimiter W mx t2 c (fst (apiRateLimiter W mx t c st'))) = (1 \<le> mx)"
      using s3 that by (intro limiter_new_window_verdict) simp
    then show ?thesis using full by simp
  qed
  have "snd (apiRateLimiter W mx t0 c st) = (1 \<le> mx)"
    using opens by (rule limiter_new_window_verdict)
  then have first: "snd (apiRateLimiter W mx t0 c st)"
    using full by simp
  have "\<not> snd (apiRateLimiter W mx t c (fst (st', w)))"
    using rej by simp
  from route_rejected[OF this, of service cfg b] first rej nxt show ?thesis
    by simp
qed

theorem fixed_window_limit_witness:
  "rateLimit_windowMs None = 60000 \<and> rateLimit_max (Some 2) = 2 \<and>
   snd (apiRateLimiter 60000 2 0 ''10.0.0.1'' Map.empty) \<and>
   \<not> snd (apiRateLimiter 60000 2 20 ''10.0.0.1''
      (limiter_run 60000 2 Map.empty [(''10.0.0.1'', 0), (''10.0.0.2'', 5), (''10.0.0.1'', 10)])) \<and>
   snd (apiRateLimiter 60000 2 60000 ''10.0.0.1''
      (fst (apiRateLimiter 60000 2 20 ''10.0.0.1''
        (limiter_run 60000 2 Map.empty
          [(''10.0.0.1'', 0), (''10.0.0.2'', 5), (''10.0.0.1'', 10)])))) \<and>
   snd (post_generate 60000 2
         (generateAsset (generateImage example_env ''./generated-assets'') example_config)
         example_config 20 ''10.0.0.1''
         (limiter_run 60000 2 Map.empty [(''10.0.0.1'', 0), (''10.0.0.2'', 5), (''10.0.0.1'', 10)],
          example_world)
         (example_body\<lparr>query := JUndefined\<rparr>))
   = ErrorResponse 429 ''Too many requests, please try again later.'' None"
proof -
  let ?evs = "[(''10.0.0.2'', 5), (''10.0.0.1'', 10)] :: (string \<times> int) list"
  let ?st = "Map.empty :: string \<rightharpoonup> rate_window"
  have c: "rateLimit_windowMs None = 60000 \<and> rateLimit_max (Some 2) = 2"
    by (simp add: rateLimit_windowMs_def rateLimit_max_def parsed_or_def)
  have o: "?st ''10.0.0.1'' = None \<or>
      (\<exists>w. ?st ''10.0.0.1'' = Some w \<and> 60000 \<le> 0 - windowStart w)"
    by simp
  have i: "\<forall>e\<in>set ?evs. fst e = ''10.0.0.1'' \<longrightarrow> snd e - 0 < (60000::int)"
    by simp
  have f: "1 + int (length (filter (\<lambda>e. fst e = ''10.0.0.1'') ?evs)) = 2"
    by simp
  have l: "(20::int) - 0 < 60000"
    by simp
  note T = fixed_window_limit[OF o i f l refl,
      of "generateAsset (generateImage example_env ''./generated-assets'') example_config"
         example_config example_world "example_body\<lparr>query := JUndefined\<rparr>"]
  from T have "snd (apiRateLimiter 60000 2 60000 ''10.0.0.1''
      (fst (apiRateLimiter 60000 2 20 ''10.0.0.1''
        (limiter_run 60000 2 ?st ((''10.0.0.1'', 0) # ?evs)))))"
    by simp
  with T c show ?thesis by simp
qed


section \<open>Image generation\<close>

lemma example_filename:
  "generateFilename ''Red Apple'' (JStr ''icon'') ''1b9d6bcd-bbfd-4b2d-9b5d-ab8dfbbd4bed''
   = ''red_apple_icon_1b9d6bcd.png''"
  by code_simp

lemma example_path:
  "path_join_posix ''./generated-assets'' ''red_apple_icon_1b9d6bcd.png''
   = ''generated-assets/red_apple_icon_1b9d6bcd.png''"
  by code_simp

lemma transparent_bytes:
  "getPlaceholderImageData (JBool True) =
    [137, 80, 78, 71, 13, 10, 26, 10, 0, 0, 0, 13, 73, 72, 68, 82, 0, 0, 0, 1, 0, 0, 0, 1,
     8, 4, 0, 0, 0, 181, 28, 12, 2, 0, 0, 0, 11, 73, 68, 65, 84, 120, 218, 99, 100, 96, 0, 0,
     0, 6, 0, 2, 48, 129, 208, 47, 0, 0, 0, 0, 73, 69, 78, 68, 174, 66, 96, 130]"
  by code_simp

lemma opaque_bytes:
  "getPlaceholderImageData (JBool False) =
    [137, 80, 78, 71, 13, 10, 26, 10, 0, 0, 0, 13, 73, 72, 68, 82, 0, 0, 0, 1, 0, 0, 0, 1,
     8, 2, 0, 0, 0, 144, 119, 83, 222, 0, 0, 0, 12, 73, 68, 65, 84, 8, 215, 99, 248, 255, 255,
     63, 0, 5, 254, 2, 254, 220, 204, 89, 231, 0, 0, 0, 0, 73, 69, 78, 68, 174, 66, 96, 130]"
  by code_simp

lemma placeholder_headers:
  "png_size (getPlaceholderImageData (JBool True)) = Some (1, 1) \<and>
   png_size (getPlaceholderImageData (JBool False)) = Some (1, 1) \<and>
   png_has_alpha (getPlaceholderImageData (JBool True)) \<and>
   \<not> png_has_alpha (getPlaceholderImageData (JBool False))"
  by code_simp

lemma placeholders_differ:
  "getPlaceholderImageData (JBool True) \<noteq> getPlaceholderImageData (JBool False)"
  by code_simp

lemma placeholder_no_network:
  assumes "\<not> strict_eq (provider b) (JStr ''openai'')"
  shows "net_log (fst (generateImage ev storage w b)) = net_log w"
  using assms
  by (cases "query b")
     (auto simp: generateImage_def save_and_return_def saveImageToDisk_def Let_def
           split: option.splits)

lemma placeholder_written:
  assumes "\<not> strict_eq (provider b) (JStr ''openai'')" "query b = JStr q"
    and "disk_fault ev (path_join ev storage (generateFilename q (format b) (uuid ev))) = None"
  shows "generateImage ev storage w b =
     (w\<lparr>files := (files w)(path_join ev storage (generateFilename q (format b) (uuid ev))
          \<mapsto> getPlaceholderImageData (transparent b))\<rparr>,
      Inr (image_result (path_join ev storage (generateFilename q (format b) (uuid ev)))
            (generateFilename q (format b) (uuid ev)) b))"
  using assms
  by (simp add: generateImage_def save_and_return_def saveImageToDisk_def Let_def)

text \<open>
  C2: for the providers \<open>stability\<close> and \<open>replicate\<close>, \<open>generateImage\<close> sends no
  outbound call, and with a query that is a string and a disk that takes the file it
  succeeds and writes the placeholder: one fixed sequence of bytes when \<open>transparent\<close>
  is true, another when it is false. Both are PNG files of 1 by 1 pixel, the first with
  an alpha channel, the second without.
\<close>

theorem placeholder_for_unimplemented_providers:
  assumes prov: "provider b = JStr ''stability'' \<or> provider b = JStr ''replicate''"
    and q: "query b = JStr q"
    and disk: "disk_fault ev (path_join ev storage (generateFilename q (format b) (uuid ev))) = None"
    and tr: "transparent b = JBool t"
  shows "(\<exists>r. generateImage ev storage w b =
            (w\<lparr>files := (files w)(file_path r \<mapsto> getPlaceholderImageData (JBool t))\<rparr>, Inr r) \<and>
          status r = ''success'' \<and>
          file_path r = path_join ev storage (generateFilename q (format b) (uuid ev))) \<and>
    net_log (fst (generateImage ev storage w b)) = net_log w \<and>
    getPlaceholderImageData (JBool True) =
      [137, 80, 78, 71, 13, 10, 26, 10, 0, 0, 0, 13, 73, 72, 68, 82, 0, 0, 0, 1, 0, 0, 0, 1,
       8, 4, 0, 0, 0, 181, 28, 12, 2, 0, 0, 0, 11, 73, 68, 65, 84, 120, 218, 99, 100, 96, 0, 0,
       0, 6, 0, 2, 48, 129, 208, 47, 0, 0, 0, 0, 73, 69, 78, 68, 174, 66, 96, 130] \<and>
    getPlaceholderImageData (JBool False) =
      [137, 80, 78, 71, 13, 10, 26, 10, 0, 0, 0, 13, 73, 72, 68, 82, 0, 0, 0, 1, 0, 0, 0, 1,
       8, 2, 0, 0, 0, 144, 119, 83, 222, 0, 0, 0, 12, 73, 68, 65, 84, 8, 215, 99, 248, 255, 255,
       63, 0, 5, 254, 2, 254, 220, 204, 89, 231, 0, 0, 0, 0, 73, 69, 78, 68, 174, 66, 96, 130] \<and>
    getPlaceholderImageData (JBool True) \<noteq> getPlaceholderImageData (JBool False) \<and>
    png_size (getPlaceholderImageData (JBool True)) = Some (1, 1) \<and>
    png_size (getPlaceholderImageData (JBool False)) = Some (1, 1) \<and>
    png_has_alpha (getPlaceholderImageData (JBool True)) \<and>
    \<not> png_has_alpha (getPlaceholderImageData (JBool False))"
proof -
  from prov have np: "\<not> strict_eq (provider b) (JStr ''openai'')"
    by auto
  let ?name = "generateFilename q (format b) (uuid ev)"
  let ?path = "path_join ev storage ?name"
  have "generateImage ev storage w b =
      (w\<lparr>files := (files w)(?path \<mapsto> getPlaceholderImageData (transparent b))\<rparr>,
       Inr (image_result ?path ?name b))"
    using np q disk by (rule placeholder_written)
  then have "generateImage ev storage w b =
      (w\<lparr>files := (files w)(file_path (image_result ?path ?name b)
          \<mapsto> getPlaceholderImageData (JBool t))\<rparr>,
       Inr (image_result ?path ?name b)) \<and> status (image_result ?path ?name b) = ''success'' \<and>
      file_path (image_result ?path ?name b) = ?path"
    using tr by (simp add: image_result_def)
  then have written: "\<exists>r. generateImage ev storage w b =
      (w\<lparr>files := (files w)(file_path r \<mapsto> getPlaceholderImageData (JBool t))\<rparr>, Inr r) \<and>
      status r = ''success'' \<and> file_path r = ?path"
    by blast
  have quiet: "net_log (fst (generateImage ev storage w b)) = net_log w"
    using np by (rule placeholder_no_network)
  show ?thesis
    using written quiet transparent_bytes opaque_bytes placeholders_differ placeholder_headers
    by blast
qed

theorem placeholder_for_unimplemented_providers_witness:
  "files (fst (generateImage example_env ''./generated-assets'' example_world
      (example_body\<lparr>provider := JStr ''stability'', transparent := JBool False\<rparr>)))
     ''generated-assets/red_apple_icon_1b9d6bcd.png''
   = Some [137, 80, 78, 71, 13, 10, 26, 10, 0, 0, 0, 13, 73, 72, 68, 82, 0, 0, 0, 1, 0, 0, 0, 1,
       8, 2, 0, 0, 0, 144, 119, 83, 222, 0, 0, 0, 12, 73, 68, 65, 84, 8, 215, 99, 248, 255, 255,
       63, 0, 5, 254, 2, 254, 220, 204, 89, 231, 0, 0, 0, 0, 73, 69, 78, 68, 174, 66, 96, 130] \<and>
   net_log (fst (generateImage example_env ''./generated-assets'' example_world
      (example_body\<lparr>provider := JStr ''stability'', transparent := JBool False\<rparr>))) = []"
proof -
  let ?b = "example_body\<lparr>provider := JStr ''stability'', transparent := JBool False\<rparr>"
  have p: "provider ?b = JStr ''stability'' \<or> provider ?b = JStr ''replicate''"
    by simp
  have q: "query ?b = JStr ''Red Apple''"
    by (simp add: example_body_def)
  have d: "disk_fault example_env (path_join example_env ''./generated-assets''
      (generateFilename ''Red Apple'' (format ?b) (uuid example_env))) = None"
    by (simp add: example_env_def)
  have t: "transparent ?b = JBool False"
    by simp
  have n: "path_join example_env ''./generated-assets''
      (generateFilename ''Red Apple'' (format ?b) (uuid example_env))
    = ''generated-assets/red_apple_icon_1b9d6bcd.png''"
    by (simp add: example_env_def example_body_def example_filename example_path)
  note T = placeholder_for_unimplemented_providers[OF p q d t, of example_world]
  from T obtain r where r: "generateImage example_env ''./generated-assets'' example_world ?b =
      (example_world\<lparr>files := (files example_world)(file_path r \<mapsto>
          getPlaceholderImageData (JBool False))\<rparr>, Inr r)"
    and rp: "file_path r = path_join example_env ''./generated-assets''
      (generateFilename ''Red Apple'' (format ?b) (uuid example_env))"
    by blast
  from rp n have "file_path r = ''generated-assets/red_apple_icon_1b9d6bcd.png''"
    by simp
  with r have f: "files (fst (generateImage example_env ''./generated-assets'' example_world ?b))
      ''generated-assets/red_apple_icon_1b9d6bcd.png'' = Some (getPlaceholderImageData (JBool False))"
    by simp
  from T have o: "getPlaceholderImageData (JBool False) =
      [137, 80, 78, 71, 13, 10, 26, 10, 0, 0, 0, 13, 73, 72, 68, 82, 0, 0, 0, 1, 0, 0, 0, 1,
       8, 2, 0, 0, 0, 144, 119, 83, 222, 0, 0, 0, 12, 73, 68, 65, 84, 8, 215, 99, 248, 255, 255,
       63, 0, 5, 254, 2, 254, 220, 204, 89, 231, 0, 0, 0, 0, 73, 69, 78, 68, 174, 66, 96, 130]"
    by blast
  from T have l: "net_log (fst (generateImage example_env ''./generated-assets'' example_world ?b))
      = net_log example_world"
    by blast
  show ?thesis
    using f o l by (simp add: example_world_def)
qed






lemma generateImage_result:
  assumes "generateImage ev storage w b = (w', Inr r)"
  shows "\<exists>q. query b = JStr q \<and>
     r = image_result (path_join ev storage (generateFilename q (format b) (uuid ev)))
            (generateFilename q (format b) (uuid ev)) b"
  using assms
  by (cases "query b")
     (auto simp: generateImage_def save_and_return_def saveImageToDisk_def Let_def
         callOpenAIImageAPI_def downloadImage_def toLowerCase_error_def
           split: option.splits if_splits prod.splits sum.splits list.splits post_outcome.splits get_outcome.splits)

lemma generateImage_placeholder_result:
  assumes "generateImage_placeholder ev storage w b = (w', Inr r)"
  shows "\<exists>q. query b = JStr q \<and>
     r = image_result (path_join ev storage (generateFilename q (format b) (uuid ev)))
            (generateFilename q (format b) (uuid ev)) b"
  using assms
  by (cases "query b")
     (auto simp: generateImage_placeholder_def createPlaceholderImage_def Let_def toLowerCase_error_def
           split: option.splits if_splits prod.splits sum.splits)

lemma generateAsset_success:
  assumes "generateAsset gen cfg w b = (w', Inr r)"
  shows "gen w (b\<lparr>api_key := js_or (api_key b)
                    (getDefaultApiKey cfg (js_or (provider b) (getDefaultProvider cfg))),
                  provider := js_or (provider b) (getDefaultProvider cfg),
                  transparent := default_true (transparent b)\<rparr>) = (w', Inr r)"
  using assms
  by (auto simp: generateAsset_def Let_def js_or_def split: if_splits)

lemma controller_success:
  assumes "snd (controller_generateAsset service w b) = SuccessResponse r"
  shows "\<exists>w'. service w b = (w', Inr r)"
  using assms
  by (cases "service w b") (auto simp: controller_generateAsset_def split: sum.splits if_splits)

lemma route_success:
  assumes "snd (post_generate W mx service cfg now client s b) = SuccessResponse r"
  shows "\<exists>w'. service (snd s) b = (w', Inr r)"
proof -
  from assms have "snd (controller_generateAsset service (snd s) b) = SuccessResponse r"
    by (cases "apiRateLimiter W mx now client (fst s)";
        cases "controller_generateAsset service (snd s) b")
       (auto simp: post_generate_def split: if_splits option.splits)
  then show ?thesis by (rule controller_success)
qed

text \<open>
  C5: whenever the generation succeeds, in either service and seen at
  \<open>generateAsset\<close> or in the answer of the route, the value returned is exactly
  \<open>{status: "success", file_path, file_name, meta: {format: "png", style, dimensions:
  "256x256", transparent, query}}\<close>: \<open>file_path\<close> is the storage path joined with
  \<open>file_name\<close>, \<open>style\<close> is that of the request or \<open>"default"\<close> when none is
  provided, \<open>transparent\<close> is that of the request or \<open>true\<close> when it is left out,
  and \<open>query\<close> is the query of the request.
\<close>

theorem successful_generation_result:
  assumes gen: "gen = generateImage ev storage \<or> gen = generateImage_placeholder ev storage"
    and ok: "generateAsset gen cfg w b = (w', Inr r) \<or>
             snd (post_generate W mx (generateAsset gen cfg) cfg now client (st, w) b)
               = SuccessResponse r"
  shows "\<exists>q. query b = JStr q \<and>
     r = \<lparr>status = ''success'',
          file_path = path_join ev storage (generateFilename q (format b) (uuid ev)),
          file_name = generateFilename q (format b) (uuid ev),
          meta = \<lparr>meta_format = ''png'',
                  meta_style = (if truthy (style b) then style b else JStr ''default''),
                  meta_dimensions = ''256x256'',
                  meta_transparent =
                    (if transparent b = JUndefined then JBool True else transparent b),
                  meta_query = JStr q\<rparr>\<rparr>"
proof -
  from ok obtain w2 where a: "generateAsset gen cfg w b = (w2, Inr r)"
    using route_success[of W mx "generateAsset gen cfg" cfg now client "(st, w)" b r] by auto
  let ?b = "b\<lparr>api_key := js_or (api_key b)
                    (getDefaultApiKey cfg (js_or (provider b) (getDefaultProvider cfg))),
                  provider := js_or (provider b) (getDefaultProvider cfg),
                  transparent := default_true (transparent b)\<rparr>"
  from a have g: "gen w ?b = (w2, Inr r)"
    by (rule generateAsset_success)
  have "\<exists>q. query ?b = JStr q \<and>
     r = image_result (path_join ev storage (generateFilename q (format ?b) (uuid ev)))
            (generateFilename q (format ?b) (uuid ev)) ?b"
    using gen g generateImage_result[of ev storage w ?b w2 r]
      generateImage_placeholder_result[of ev storage w ?b w2 r]
    by blast
  then show ?thesis
    by (auto simp: image_result_def js_or_def default_true_def)
qed

theorem successful_generation_result_witness:
  "snd (generateAsset (generateImage example_env (assetStorage_path None)) example_config
         example_world example_body)
   = Inr \<lparr>status = ''success'',
          file_path = ''generated-assets/red_apple_icon_1b9d6bcd.png'',
          file_name = ''red_apple_icon_1b9d6bcd.png'',
          meta = \<lparr>meta_format = ''png'', meta_style = JStr ''default'',
                  meta_dimensions = ''256x256'', meta_transparent = JBool True,
                  meta_query = JStr ''Red Apple''\<rparr>\<rparr>"
proof -
  let ?gen = "generateImage example_env (assetStorage_path None)"
  obtain w' r where e: "generateAsset ?gen example_config example_world example_body = (w', Inr r)"
    by (simp add: generateAsset_def generateImage_def callOpenAIImageAPI_def downloadImage_def
        save_and_return_def saveImageToDisk_def example_env_def example_body_def
        example_config_def js_or_def getDefaultProvider_def getDefaultApiKey_def Let_def)
  have g: "?gen = generateImage example_env (assetStorage_path None) \<or>
      ?gen = generateImage_placeholder example_env (assetStorage_path None)"
    by simp
  from successful_generation_result[OF g disjI1[OF e]]
  have "r = \<lparr>status = ''success'',
          file_path = ''generated-assets/red_apple_icon_1b9d6bcd.png'',
          file_name = ''red_apple_icon_1b9d6bcd.png'',
          meta = \<lparr>meta_format = ''png'', meta_style = JStr ''default'',
                  meta_dimensions = ''256x256'', meta_transparent = JBool True,
                  meta_query = JStr ''Red Apple''\<rparr>\<rparr>"
    by (auto simp: example_body_def example_env_def example_filename assetStorage_path_def
        example_path)
  with e show ?thesis by simp
qed

end
